theory Spec2Isabelle
  imports Complex_Main "HOL-Library.Word"
begin

section \<open>The surroundings of a run\<close>

text \<open>
  The script \<^verbatim>\<open>create_example_csv.py\<close> has no input of its own. Everything it
  reads comes from four places outside it: the operating system's entropy behind
  \<^verbatim>\<open>uuid.uuid4()\<close>, the generator of module \<^verbatim>\<open>random\<close>, the clock
  behind \<^verbatim>\<open>time.time()\<close>, and the file system that may refuse to open, write or
  close the output file. An \<open>env\<close> fixes what each of them answers, call by call.
\<close>

type_synonym uuid = "128 word"

record env =
  uuid4_src :: "nat \<Rightarrow> uuid"
  random_src :: "nat \<Rightarrow> nat"
  time_src :: "nat \<Rightarrow> rat"
  open_ok :: bool
  write_ok :: "nat \<Rightarrow> bool"
  close_ok :: bool

text \<open>
  \<open>uuid4_src e n\<close> is the value of the \<open>n\<close>-th call of \<^verbatim>\<open>uuid.uuid4()\<close>,
  \<open>random_src e n\<close> the raw number behind the \<open>n\<close>-th draw from module
  \<^verbatim>\<open>random\<close>, \<open>time_src e n\<close> the (float) value of the \<open>n\<close>-th call of
  \<^verbatim>\<open>time.time()\<close>; \<open>write_ok e n\<close> says whether the \<open>n\<close>-th write to the file
  succeeds. Calls are counted from 0.
\<close>

datatype error = OSError | IndexError | KeyError | ValueError

datatype pyval = PStr string | PInt int | PFloat rat | PUUID uuid

datatype io_event = EvOpen bool | EvWriterow "pyval list" bool | EvClose bool

record fs_state =
  write_calls :: nat
  io_log :: "io_event list"

record world =
  uuid_calls :: nat
  random_calls :: nat
  time_calls :: nat
  fs :: fs_state

definition init_world :: world where
  "init_world = \<lparr>uuid_calls = 0, random_calls = 0, time_calls = 0,
                  fs = \<lparr>write_calls = 0, io_log = []\<rparr>\<rparr>"

type_synonym 'a prog = "world \<Rightarrow> (error + 'a) \<times> world"

definition ret :: "'a \<Rightarrow> 'a prog" where
  "ret x w = (Inr x, w)"

definition raise :: "error \<Rightarrow> 'a prog" where
  "raise err w = (Inl err, w)"

definition bind :: "'a prog \<Rightarrow> ('a \<Rightarrow> 'b prog) \<Rightarrow> 'b prog" where
  "bind m f w = (case m w of (Inl err, w') \<Rightarrow> (Inl err, w') | (Inr x, w') \<Rightarrow> f x w')"

section \<open>Library calls\<close>

definition uuid4 :: "env \<Rightarrow> uuid prog" where
  "uuid4 e w = (Inr (uuid4_src e (uuid_calls w)), w\<lparr>uuid_calls := Suc (uuid_calls w)\<rparr>)"

definition time_time :: "env \<Rightarrow> rat prog" where
  "time_time e w = (Inr (time_src e (time_calls w)), w\<lparr>time_calls := Suc (time_calls w)\<rparr>)"

text \<open>
  One draw from module \<^verbatim>\<open>random\<close>: the raw number of the draw, with the draw
  counted. The library promises a value below \<open>n\<close> for \<^verbatim>\<open>_randbelow(n)\<close>; the
  raw number is reduced into that range.
\<close>

definition raw_draw :: "env \<Rightarrow> nat prog" where
  "raw_draw e w = (Inr (random_src e (random_calls w)), w\<lparr>random_calls := Suc (random_calls w)\<rparr>)"

definition randbelow :: "env \<Rightarrow> nat \<Rightarrow> nat prog" where
  "randbelow e n = bind (raw_draw e) (\<lambda>r. ret (r mod n))"

definition randint :: "env \<Rightarrow> int \<Rightarrow> int \<Rightarrow> int prog" where
  "randint e a b =
     (if b < a then raise ValueError
      else bind (randbelow e (nat (b - a + 1))) (\<lambda>r. ret (a + int r)))"

definition choice :: "env \<Rightarrow> 'a list \<Rightarrow> 'a prog" where
  "choice e xs =
     (if xs = [] then raise IndexError
      else bind (randbelow e (length xs)) (\<lambda>i. ret (xs ! i)))"

subsection \<open>Floats\<close>

text \<open>
  The only floats the script computes are \<^verbatim>\<open>random.random()\<close>, its product with
  \<open>120\<close> and the rounded product. \<^verbatim>\<open>random.random()\<close> is \<open>k / 2^53\<close> with
  \<open>k < 2^53\<close>; such a float is kept as its numerator over \<open>2^53\<close>. The product of two
  doubles is the exact product rounded to 53 significant bits, ties to even:
  \<open>fl53 n\<close> is the numerator of the double nearest to \<open>n / 2^53\<close>.
  \<^verbatim>\<open>round(x, 2)\<close> rounds the exact value of \<open>x\<close> to hundredths, ties to even, and
  gives the double nearest to that decimal number; that double prints as the decimal
  number, which is the rational kept in a \<open>PFloat\<close>.
  \<^verbatim>\<open>time.time()\<close> is a float as well, kept as the rational it is.
\<close>

fun bit_length :: "nat \<Rightarrow> nat" where
  "bit_length n = (if n = 0 then 0 else Suc (bit_length (n div 2)))"

definition div_half_even :: "nat \<Rightarrow> nat \<Rightarrow> nat" where
  "div_half_even n d =
     (let q = n div d; r = n mod d
      in if 2 * r < d then q
         else if d < 2 * r then q + 1
         else if even q then q else q + 1)"

definition fl53 :: "nat \<Rightarrow> nat" where
  "fl53 n =
     (let l = bit_length n
      in if l \<le> 53 then n else div_half_even n (2 ^ (l - 53)) * 2 ^ (l - 53))"

definition random_random :: "env \<Rightarrow> nat prog" where
  "random_random e = bind (raw_draw e) (\<lambda>r. ret (r mod 2 ^ 53))"

definition py_round2 :: "nat \<Rightarrow> rat" where
  "py_round2 n = of_nat (div_half_even (100 * n) (2 ^ 53)) / 100"

definition py_int :: "rat \<Rightarrow> int" where
  "py_int x = (if 0 \<le> x then \<lfloor>x\<rfloor> else \<lceil>x\<rceil>)"

subsection \<open>Text of a value\<close>

definition digit_char :: "nat \<Rightarrow> char" where
  "digit_char d = ''0123456789abcdef'' ! d"

fun str_nat :: "nat \<Rightarrow> string" where
  "str_nat n = (if n < 10 then [digit_char n] else str_nat (n div 10) @ [digit_char (n mod 10)])"

definition str_int :: "int \<Rightarrow> string" where
  "str_int i = (if i < 0 then ''-'' @ str_nat (nat (- i)) else str_nat (nat i))"

text \<open>
  \<^verbatim>\<open>str\<close> of a float whose value is a decimal number with at most two digits after
  the point and not negative: the shortest text that reads back as the float, with at
  least one digit after the point.
\<close>

definition repr_float :: "rat \<Rightarrow> string" where
  "repr_float x =
     (let h = nat \<lfloor>x * 100\<rfloor>; f = h mod 100
      in str_nat (h div 100) @ ''.'' @
         (if f mod 10 = 0 then [digit_char (f div 10)]
          else [digit_char (f div 10), digit_char (f mod 10)]))"

definition hex32 :: "nat \<Rightarrow> string" where
  "hex32 n = map (\<lambda>i. digit_char ((n div 16 ^ (31 - i)) mod 16)) [0..<32]"

definition str_uuid :: "uuid \<Rightarrow> string" where
  "str_uuid u =
     (let h = hex32 (unat u)
      in take 8 h @ ''-'' @ take 4 (drop 8 h) @ ''-'' @ take 4 (drop 12 h) @ ''-'' @
         take 4 (drop 16 h) @ ''-'' @ drop 20 h)"

fun py_str :: "pyval \<Rightarrow> string" where
  "py_str (PStr s) = s"
| "py_str (PInt i) = str_int i"
| "py_str (PFloat x) = repr_float x"
| "py_str (PUUID u) = str_uuid u"

subsection \<open>The csv writer and the file\<close>

text \<open>
  \<^verbatim>\<open>csv.writer(csvfile).writerow(row)\<close> with the default dialect: every value is
  turned into text by \<^verbatim>\<open>str\<close>, a text that holds the delimiter, the quote
  character or a line break is put in quotes with its quotes doubled, the texts are
  joined by commas and the line ends with \<^verbatim>\<open>\r\n\<close>. The line goes to the file in
  one write.
\<close>

definition needs_quote :: "string \<Rightarrow> bool" where
  "needs_quote s = (\<exists>c \<in> set s. c = CHR '','' \<or> c = CHR 0x22 \<or> c = CHR 0x0D \<or> c = CHR 0x0A)"

definition csv_field :: "string \<Rightarrow> string" where
  "csv_field s =
     (if needs_quote s
      then [CHR 0x22] @ concat (map (\<lambda>c. if c = CHR 0x22 then [c, c] else [c]) s) @ [CHR 0x22]
      else s)"

fun join_commas :: "string list \<Rightarrow> string" where
  "join_commas [] = []"
| "join_commas [s] = s"
| "join_commas (s # t # ss) = s @ '','' @ join_commas (t # ss)"

definition csv_line :: "pyval list \<Rightarrow> string" where
  "csv_line row = join_commas (map (csv_field \<circ> py_str) row) @ [CHR 0x0D, CHR 0x0A]"

definition fs_open :: "env \<Rightarrow> fs_state \<Rightarrow> (error + unit) \<times> fs_state" where
  "fs_open e f =
     (if open_ok e then (Inr (), f\<lparr>io_log := io_log f @ [EvOpen True]\<rparr>)
      else (Inl OSError, f\<lparr>io_log := io_log f @ [EvOpen False]\<rparr>))"

definition fs_write :: "env \<Rightarrow> pyval list \<Rightarrow> fs_state \<Rightarrow> (error + unit) \<times> fs_state" where
  "fs_write e row f =
     (if write_ok e (write_calls f)
      then (Inr (), \<lparr>write_calls = Suc (write_calls f), io_log = io_log f @ [EvWriterow row True]\<rparr>)
      else (Inl OSError,
            \<lparr>write_calls = Suc (write_calls f), io_log = io_log f @ [EvWriterow row False]\<rparr>))"

definition fs_close :: "env \<Rightarrow> fs_state \<Rightarrow> (error + unit) \<times> fs_state" where
  "fs_close e f =
     (if close_ok e then (Inr (), f\<lparr>io_log := io_log f @ [EvClose True]\<rparr>)
      else (Inl OSError, f\<lparr>io_log := io_log f @ [EvClose False]\<rparr>))"

definition on_fs :: "(fs_state \<Rightarrow> (error + unit) \<times> fs_state) \<Rightarrow> unit prog" where
  "on_fs op w = (case op (fs w) of (r, f') \<Rightarrow> (r, w\<lparr>fs := f'\<rparr>))"

definition open_file :: "env \<Rightarrow> unit prog" where
  "open_file e = on_fs (fs_open e)"

definition writerow :: "env \<Rightarrow> pyval list \<Rightarrow> unit prog" where
  "writerow e row = on_fs (fs_write e row)"

definition close_file :: "env \<Rightarrow> unit prog" where
  "close_file e = on_fs (fs_close e)"

text \<open>
  What the file holds after a sequence of events: opening for writing empties it,
  a successful \<^verbatim>\<open>writerow\<close> appends its line, nothing else changes it.
\<close>

fun file_text :: "io_event list \<Rightarrow> string \<Rightarrow> string" where
  "file_text [] t = t"
| "file_text (EvOpen ok # evs) t = file_text evs (if ok then [] else t)"
| "file_text (EvWriterow row ok # evs) t = file_text evs (if ok then t @ csv_line row else t)"
| "file_text (EvClose ok # evs) t = file_text evs t"

section \<open>The script\<close>

fun for_gen_uuids :: "env \<Rightarrow> nat \<Rightarrow> (uuid \<Rightarrow> unit prog) \<Rightarrow> unit prog" where
  "for_gen_uuids e 0 body = ret ()"
| "for_gen_uuids e (Suc n) body =
     bind (uuid4 e) (\<lambda>u. bind (body u) (\<lambda>_. for_gen_uuids e n body))"

definition locations :: "(string \<times> string list) list" where
  "locations =
     [(''TX'', [''Austin'', ''San Antonio'']),
      (''CA'', [''Berkely'', ''Las Angeles'', ''San Diego'']),
      (''VT'', [''Burlington'', ''St. Albans''])]"

definition random_geoLocation :: "env \<Rightarrow> string prog" where
  "random_geoLocation e =
     bind (choice e (map fst locations)) (\<lambda>state.
       case map_of locations state of
         None \<Rightarrow> raise KeyError
       | Some cities \<Rightarrow>
           bind (choice e cities) (\<lambda>city.
             ret (''Earth'' @ ''-'' @ ''US'' @ ''-'' @ state @ ''-'' @ city)))"

definition random_time :: "env \<Rightarrow> int prog" where
  "random_time e =
     bind (time_time e) (\<lambda>t. bind (randint e 100 10000) (\<lambda>off. ret (py_int t - off)))"

definition random_tempC :: "env \<Rightarrow> rat prog" where
  "random_tempC e = bind (random_random e) (\<lambda>x. ret (py_round2 (fl53 (x * 120))))"

definition random_humidityPct :: "env \<Rightarrow> int prog" where
  "random_humidityPct e = randint e 0 100"

definition random_pressurePa :: "env \<Rightarrow> int prog" where
  "random_pressurePa e = randint e 100000 105000"

definition random_expiry :: "env \<Rightarrow> int \<Rightarrow> int prog" where
  "random_expiry e startEpochS =
     bind (randint e 60 600) (\<lambda>off. choice e [0, 0, 0, startEpochS + off])"

definition fields :: "string list" where
  "fields = [''userId'', ''deviceId'', ''eventId'', ''geoLocation'', ''epochS'', ''expiry'',
             ''tempC'', ''humidityPct'', ''pressurePa'']"

definition event_body :: "env \<Rightarrow> uuid \<Rightarrow> uuid \<Rightarrow> string \<Rightarrow> uuid \<Rightarrow> unit prog" where
  "event_body e userId deviceId geoLocation eventId =
     bind (random_time e) (\<lambda>epochS.
     bind (random_expiry e epochS) (\<lambda>expiry.
     bind (random_tempC e) (\<lambda>tempC.
     bind (random_humidityPct e) (\<lambda>humidityPct.
     bind (random_pressurePa e) (\<lambda>pressurePa.
       writerow e [PUUID userId, PUUID deviceId, PUUID eventId, PStr geoLocation,
                   PInt epochS, PInt expiry, PFloat tempC, PInt humidityPct,
                   PInt pressurePa])))))"

definition device_body :: "env \<Rightarrow> uuid \<Rightarrow> uuid \<Rightarrow> unit prog" where
  "device_body e userId deviceId =
     bind (random_geoLocation e) (\<lambda>geoLocation.
       for_gen_uuids e 10 (event_body e userId deviceId geoLocation))"

definition user_body :: "env \<Rightarrow> uuid \<Rightarrow> unit prog" where
  "user_body e userId = for_gen_uuids e 2 (device_body e userId)"

definition with_body :: "env \<Rightarrow> unit prog" where
  "with_body e =
     bind (writerow e (map PStr fields)) (\<lambda>_. for_gen_uuids e 4 (user_body e))"

text \<open>
  The \<^verbatim>\<open>with\<close> statement: when the file cannot be opened, the error leaves the
  script at once. Otherwise the body runs, the file is closed whether the body raised
  or not, and an error of the body or of closing leaves the script.
\<close>

definition main :: "env \<Rightarrow> unit prog" where
  "main e w =
     (case open_file e w of
        (Inl err, w1) \<Rightarrow> (Inl err, w1)
      | (Inr _, w1) \<Rightarrow>
          (case with_body e w1 of
             (r, w2) \<Rightarrow>
               (case close_file e w2 of
                  (Inl err, w3) \<Rightarrow> (Inl err, w3)
                | (Inr _, w3) \<Rightarrow> (r, w3))))"

definition run :: "env \<Rightarrow> (error + unit) \<times> world" where
  "run e = main e init_world"


section \<open>Notions used to state the properties\<close>

text \<open>
  A sample surrounding: identifiers that count up, every raw draw 0, a clock that
  stands at 1700000000, a file system that refuses nothing.
\<close>

definition env0 :: env where
  "env0 = \<lparr>uuid4_src = (\<lambda>n. of_nat n), random_src = (\<lambda>n. 0), time_src = (\<lambda>n. 1700000000),
           open_ok = True, write_ok = (\<lambda>n. True), close_ok = True\<rparr>"

text \<open>The same surrounding with the raw number of draw \<open>n\<close> replaced by \<open>r\<close>.\<close>

definition with_draw :: "env \<Rightarrow> nat \<Rightarrow> nat \<Rightarrow> env" where
  "with_draw e n r = e\<lparr>random_src := (random_src e)(n := r)\<rparr>"

text \<open>
  \<^verbatim>\<open>random_expiry\<close> draws twice: the offset first (the argument of
  \<^verbatim>\<open>random.choice\<close> is built before the call), then the position in the tuple.
  \<open>expiry_offset e c\<close> is the offset when the first of the two is draw \<open>c\<close>.
  The library draws each value below the bound with the same weight, so the equally
  weighted cases of one call of \<^verbatim>\<open>random_expiry(t)\<close> are the pairs of a number
  \<open>a\<close> below 541 behind \<^verbatim>\<open>random.randint(60, 600)\<close> and a position \<open>i\<close> below 4
  behind \<^verbatim>\<open>random.choice\<close>; \<open>expiry_result e t w a i\<close> is what the function
  returns in the case \<open>(a, i)\<close>.
\<close>

definition expiry_offset :: "env \<Rightarrow> nat \<Rightarrow> int" where
  "expiry_offset e c = 60 + int (random_src e c mod 541)"

definition expiry_result :: "env \<Rightarrow> int \<Rightarrow> world \<Rightarrow> nat \<Rightarrow> nat \<Rightarrow> error + int" where
  "expiry_result e t w a i =
     fst (random_expiry (with_draw (with_draw e (random_calls w) a) (Suc (random_calls w)) i) t w)"

text \<open>
  One data row, as the values the script puts in the list it hands to
  \<^verbatim>\<open>writerow\<close>, in the order of the list.
\<close>

datatype row =
  Row (userId: uuid) (deviceId: uuid) (eventId: uuid) (geoLocation: string) (epochS: int)
    (expiry: int) (tempC: rat) (humidityPct: int) (pressurePa: int)



definition loop_plan :: "env \<Rightarrow> nat \<Rightarrow> (uuid \<Rightarrow> nat \<Rightarrow> nat \<Rightarrow> nat \<Rightarrow> pyval list list) \<Rightarrow> nat \<Rightarrow> nat \<Rightarrow> nat
    \<Rightarrow> nat \<Rightarrow> nat \<Rightarrow> nat \<Rightarrow> pyval list list" where
  "loop_plan e n plan du dr dt uc rc tc =
     concat (map (\<lambda>i. plan (uuid4_src e (uc + i * Suc du)) (Suc (uc + i * Suc du)) (rc + i * dr) (tc + i * dt)) [0..<n])"

definition row_vals :: "row \<Rightarrow> pyval list" where
  "row_vals r = [PUUID (userId r), PUUID (deviceId r), PUUID (eventId r), PStr (geoLocation r),
                 PInt (epochS r), PInt (expiry r), PFloat (tempC r), PInt (humidityPct r),
                 PInt (pressurePa r)]"










definition ok_count :: "env \<Rightarrow> nat \<Rightarrow> nat \<Rightarrow> nat" where
  "ok_count e c n = length (takeWhile (write_ok e) [c..<c + n])"


fun the_uuid :: "pyval \<Rightarrow> uuid option" where
  "the_uuid (PUUID u) = Some u"
| "the_uuid v = None"

fun the_str :: "pyval \<Rightarrow> string option" where
  "the_str (PStr s) = Some s"
| "the_str v = None"

fun the_int :: "pyval \<Rightarrow> int option" where
  "the_int (PInt i) = Some i"
| "the_int v = None"

fun the_float :: "pyval \<Rightarrow> rat option" where
  "the_float (PFloat x) = Some x"
| "the_float v = None"

definition row_of_vals :: "pyval list \<Rightarrow> row option" where
  "row_of_vals vals =
     (if length vals \<noteq> 9 then None
      else Option.bind (the_uuid (vals ! 0)) (\<lambda>a.
           Option.bind (the_uuid (vals ! 1)) (\<lambda>b.
           Option.bind (the_uuid (vals ! 2)) (\<lambda>c.
           Option.bind (the_str (vals ! 3)) (\<lambda>g.
           Option.bind (the_int (vals ! 4)) (\<lambda>t.
           Option.bind (the_int (vals ! 5)) (\<lambda>x.
           Option.bind (the_float (vals ! 6)) (\<lambda>f.
           Option.bind (the_int (vals ! 7)) (\<lambda>h.
           Option.bind (the_int (vals ! 8)) (\<lambda>p. Some (Row a b c g t x f h p)))))))))))"



definition rows_done :: "env \<Rightarrow> nat" where
  "rows_done e = (if open_ok e then ok_count e 0 81 - 1 else 0)"






section \<open>Running the library calls\<close>

lemma bind_ret [simp]: "bind (ret x) f w = f x w"
  by (simp add: bind_def ret_def)

lemma bind_assoc: "bind (bind m f) g = bind m (\<lambda>x. bind (f x) g)"
  by (rule ext) (simp add: bind_def split: prod.splits sum.splits)

lemma bind_ret_right [simp]: "bind m ret = m"
  by (rule ext) (simp add: bind_def ret_def split: prod.splits sum.splits)

lemma raw_draw_bind [simp]:
  "bind (raw_draw e) f w =
     f (random_src e (random_calls w)) (w\<lparr>random_calls := Suc (random_calls w)\<rparr>)"
  by (simp add: bind_def raw_draw_def)

lemma uuid4_bind [simp]:
  "bind (uuid4 e) f w = f (uuid4_src e (uuid_calls w)) (w\<lparr>uuid_calls := Suc (uuid_calls w)\<rparr>)"
  by (simp add: bind_def uuid4_def)

lemma time_time_bind [simp]:
  "bind (time_time e) f w = f (time_src e (time_calls w)) (w\<lparr>time_calls := Suc (time_calls w)\<rparr>)"
  by (simp add: bind_def time_time_def)

lemma randbelow_bind [simp]:
  "bind (randbelow e n) f w =
     f (random_src e (random_calls w) mod n) (w\<lparr>random_calls := Suc (random_calls w)\<rparr>)"
  by (simp add: randbelow_def bind_assoc)

lemma randint_bind:
  "a \<le> b \<Longrightarrow> bind (randint e a b) f w =
     f (a + int (random_src e (random_calls w) mod nat (b - a + 1)))
       (w\<lparr>random_calls := Suc (random_calls w)\<rparr>)"
  by (simp add: randint_def bind_assoc)

lemma choice_bind:
  "xs \<noteq> [] \<Longrightarrow> bind (choice e xs) f w =
     f (xs ! (random_src e (random_calls w) mod length xs))
       (w\<lparr>random_calls := Suc (random_calls w)\<rparr>)"
  by (simp add: choice_def bind_assoc)

lemma choice_run:
  "xs \<noteq> [] \<Longrightarrow> choice e xs w =
     (Inr (xs ! (random_src e (random_calls w) mod length xs)),
      w\<lparr>random_calls := Suc (random_calls w)\<rparr>)"
  using choice_bind [of xs e ret w] by (simp add: ret_def)

section \<open>The expiry generator\<close>

lemma random_expiry_run:
  "random_expiry e t w =
     (Inr ([0, 0, 0, t + expiry_offset e (random_calls w)]
             ! (random_src e (Suc (random_calls w)) mod 4)),
      w\<lparr>random_calls := random_calls w + 2\<rparr>)"
  by (simp add: random_expiry_def randint_bind choice_run expiry_offset_def)

lemma expiry_result_eq:
  "a < 541 \<Longrightarrow> i < 4 \<Longrightarrow> expiry_result e t w a i = Inr ([0, 0, 0, t + (60 + int a)] ! i)"
  by (simp add: expiry_result_def random_expiry_run with_draw_def expiry_offset_def)

lemma nth_tuple_zero:
  "i < 4 \<Longrightarrow> x \<noteq> 0 \<Longrightarrow> ([0, 0, 0, x] ! i = (0::int)) = (i < 3)"
proof -
  assume "i < 4" and "x \<noteq> 0"
  then consider "i = 0" | "i = 1" | "i = 2" | "i = 3" by linarith
  then show ?thesis using \<open>x \<noteq> 0\<close> by cases simp_all
qed

lemma expiry_result_zero:
  assumes "t < - 600 \<or> - 60 < t" "a < 541" "i < 4"
  shows "(expiry_result e t w a i = Inr 0) = (i < 3)"
proof -
  from assms(1,2) have "t + (60 + int a) \<noteq> 0" by linarith
  with assms show ?thesis by (simp add: expiry_result_eq nth_tuple_zero)
qed

lemma sentinel_pairs:
  assumes "t < - 600 \<or> - 60 < t"
  shows "{(a, i). a < 541 \<and> i < 4 \<and> expiry_result e t w a i = Inr 0} = {..<541} \<times> {..<3}"
  using assms by (auto simp: expiry_result_zero)

lemma all_pairs: "{(a, i). a < (541::nat) \<and> i < (4::nat)} = {..<541} \<times> {..<4}"
  by auto

lemma offset_unique:
  assumes "60 \<le> off" "off \<le> 600"
  shows "\<exists>!a. a < 541 \<and> expiry_result e t w a 3 = Inr (t + off)"
proof
  show "nat (off - 60) < 541 \<and> expiry_result e t w (nat (off - 60)) 3 = Inr (t + off)"
    using assms by (simp add: expiry_result_eq)
next
  fix a assume "a < 541 \<and> expiry_result e t w a 3 = Inr (t + off)"
  then show "a = nat (off - 60)" by (auto simp: expiry_result_eq)
qed

text \<open>
  C4, for the timestamps at which it holds. A call of \<^verbatim>\<open>random_expiry(t)\<close> returns
  the result of the case \<open>(a, i)\<close> that its two draws select, and the result of the
  case \<open>(a, i)\<close> is entry \<open>i\<close> of the tuple \<open>(0, 0, 0, t + 60 + a)\<close>: one of four
  equally weighted outcomes. The offset is uniform on 60 to 600: every offset in that
  range is the offset of exactly one of the 541 equally weighted values of \<open>a\<close>.
  For every \<open>t\<close> outside \<open>-600 .. -60\<close>, the result is the sentinel 0 exactly in the
  cases with \<open>i\<close> below 3, whatever the offset: exactly 3 of the 4 outcomes are the
  sentinel, and the cases that return 0 are 3 in 4 of all cases, which is the
  probability 3/4.
\<close>

theorem random_expiry_distribution:
  "random_expiry e t w =
     (expiry_result e t w (random_src e (random_calls w) mod 541)
        (random_src e (Suc (random_calls w)) mod 4),
      w\<lparr>random_calls := random_calls w + 2\<rparr>) \<and>
   (\<forall>a<541. \<forall>i<4. expiry_result e t w a i = Inr ([0, 0, 0, t + (60 + int a)] ! i)) \<and>
   (\<forall>off. 60 \<le> off \<and> off \<le> 600 \<longrightarrow>
      (\<exists>!a. a < 541 \<and> expiry_result e t w a 3 = Inr (t + off))) \<and>
   (t < - 600 \<or> - 60 < t \<longrightarrow>
      (\<forall>a<541. \<forall>i<4. (expiry_result e t w a i = Inr 0) = (i < 3)) \<and>
      4 * card {(a, i). a < 541 \<and> i < 4 \<and> expiry_result e t w a i = Inr 0} =
      3 * card {(a, i). a < (541::nat) \<and> i < (4::nat)})"
proof -
  have run: "random_expiry e t w =
     (expiry_result e t w (random_src e (random_calls w) mod 541)
        (random_src e (Suc (random_calls w)) mod 4),
      w\<lparr>random_calls := random_calls w + 2\<rparr>)"
    by (simp add: expiry_result_eq random_expiry_run expiry_offset_def)
  have tab: "\<forall>a<541. \<forall>i<4. expiry_result e t w a i = Inr ([0, 0, 0, t + (60 + int a)] ! i)"
    by (simp add: expiry_result_eq)
  have uni: "\<forall>off. 60 \<le> off \<and> off \<le> 600 \<longrightarrow>
      (\<exists>!a. a < 541 \<and> expiry_result e t w a 3 = Inr (t + off))"
    using offset_unique by blast
  have cnt: "t < - 600 \<or> - 60 < t \<longrightarrow>
      (\<forall>a<541. \<forall>i<4. (expiry_result e t w a i = Inr 0) = (i < 3)) \<and>
      4 * card {(a, i). a < 541 \<and> i < 4 \<and> expiry_result e t w a i = Inr 0} =
      3 * card {(a, i). a < (541::nat) \<and> i < (4::nat)}"
  proof
    assume t: "t < - 600 \<or> - 60 < t"
    have "\<forall>a<541. \<forall>i<4. (expiry_result e t w a i = Inr 0) = (i < 3)"
      using t by (simp add: expiry_result_zero)
    moreover have "4 * card {(a, i). a < 541 \<and> i < 4 \<and> expiry_result e t w a i = Inr 0} =
      3 * card {(a, i). a < (541::nat) \<and> i < (4::nat)}"
      by (simp add: sentinel_pairs [OF t] all_pairs)
    ultimately show "(\<forall>a<541. \<forall>i<4. (expiry_result e t w a i = Inr 0) = (i < 3)) \<and>
      4 * card {(a, i). a < 541 \<and> i < 4 \<and> expiry_result e t w a i = Inr 0} =
      3 * card {(a, i). a < (541::nat) \<and> i < (4::nat)}" by blast
  qed
  from run tab uni cnt show ?thesis by blast
qed

theorem random_expiry_distribution_witness:
  "(5::nat) < 541 \<and> (3::nat) < 4 \<and> (2::nat) < 4 \<and> (60::int) \<le> 65 \<and> (65::int) \<le> 600 \<and>
   ((1000::int) < - 600 \<or> - 60 < (1000::int)) \<and>
   expiry_result env0 1000 init_world 5 3 = Inr 1065 \<and>
   expiry_result env0 1000 init_world 5 2 = Inr 0 \<and>
   (\<exists>!a. a < 541 \<and> expiry_result env0 1000 init_world a 3 = Inr (1000 + 65)) \<and>
   4 * card {(a, i). a < 541 \<and> i < 4 \<and> expiry_result env0 1000 init_world a i = Inr 0} =
     3 * (541 * 4)"
proof -
  note th = random_expiry_distribution [of env0 1000 init_world]
  have h: "(1000::int) < - 600 \<or> - 60 < (1000::int)" by simp
  from th have a: "\<forall>a<541. \<forall>i<4.
      expiry_result env0 1000 init_world a i = Inr ([0, 0, 0, 1000 + (60 + int a)] ! i)"
    by blast
  from a have r1: "expiry_result env0 1000 init_world 5 3 = Inr 1065" by simp
  from th h have z: "\<forall>a<541. \<forall>i<4. (expiry_result env0 1000 init_world a i = Inr 0) = (i < 3)"
    by blast
  from z have r2: "expiry_result env0 1000 init_world 5 2 = Inr 0" by simp
  from th have "\<forall>off. 60 \<le> off \<and> off \<le> 600 \<longrightarrow>
      (\<exists>!a. a < 541 \<and> expiry_result env0 1000 init_world a 3 = Inr (1000 + off))" by blast
  from this [rule_format, of 65]
  have r3: "\<exists>!a. a < 541 \<and> expiry_result env0 1000 init_world a 3 = Inr (1000 + 65)" by simp
  from th h have "4 * card {(a, i). a < 541 \<and> i < 4 \<and> expiry_result env0 1000 init_world a i = Inr 0} =
      3 * card {(a, i). a < (541::nat) \<and> i < (4::nat)}" by blast
  then have r4: "4 * card {(a, i). a < 541 \<and> i < 4 \<and> expiry_result env0 1000 init_world a i = Inr 0} =
      3 * (541 * 4)"
    by (simp add: all_pairs)
  from r1 r2 r3 r4 show ?thesis by simp
qed

text \<open>
  At the timestamp \<open>-60\<close>, in the cases where the offset is 60, all four outcomes are
  0: the remaining outcome is the sentinel as well, so more than 3 cases in 4 return 0.
\<close>

theorem random_expiry_four_sentinels:
  "map (expiry_result env0 (- 60) init_world 0) [0, 1, 2, 3] = [Inr 0, Inr 0, Inr 0, Inr 0]"
  by (simp add: expiry_result_eq)

section \<open>The run, write by write\<close>


lemma loop_plan_0 [simp]: "loop_plan e 0 plan du dr dt uc rc tc = []"
  by (simp add: loop_plan_def)

















lemma ok_count_0 [simp]: "ok_count e c 0 = 0"
  by (simp add: ok_count_def)








lemma row_of_vals_row [simp]: "row_of_vals (row_vals r) = Some r"
  by (cases r) (simp add: row_vals_def row_of_vals_def)

lemma row_of_vals_fields [simp]: "row_of_vals (map PStr fields) = None"
  by (simp add: fields_def row_of_vals_def)























lemma with_draw_simps [simp]:
  "random_src (with_draw e n r) = (random_src e)(n := r)"
  "time_src (with_draw e n r) = time_src e"
  "uuid4_src (with_draw e n r) = uuid4_src e"
  "open_ok (with_draw e n r) = open_ok e"
  "write_ok (with_draw e n r) = write_ok e"
  "close_ok (with_draw e n r) = close_ok e"
  by (simp_all add: with_draw_def)

lemma rows_done_with_draw [simp]: "rows_done (with_draw e n r) = rows_done e"
  by (simp add: rows_done_def ok_count_def)


















lemma device_block: "\<forall>d \<in> set [0..<8]. length (filter (\<lambda>j. j div 10 = d) [0..<80]) = 10"
  by code_simp

lemma user_devices:
  "\<forall>u \<in> set [0..<4]. set (map (\<lambda>j. j div 10) (filter (\<lambda>j. j div 20 = u) [0..<80])) = set [2 * u, 2 * u + 1]"
  by code_simp

lemma users: "set (map (\<lambda>j. j div 20) [0..<80]) = set [0, 1, 2, 3]"
  by code_simp












end
